theory Spec2Isabelle
  imports Complex_Main
begin

section \<open>Data model of \<open>app.py\<close>\<close>

text \<open>
  A reading is one record of the loaded dataset: the dictionary
  \<^verbatim>\<open>{'datetime': str, 'Current': float}\<close> built by \<open>load_dataset\<close>.
  Python floats are idealised as real numbers: rounding, infinities and NaN are
  outside this model. The idealisation is harmless for statements about which values
  enter a computation and which formula and comparison are applied to them, and for
  concrete inputs whose comparisons are decided by margins far larger than any rounding
  error. It is not harmless for the question whether a computed standard deviation is
  exactly 0: in floating point the mean of fifty equal values need not be that value
  again (fifty readings of 0.3 have a computed standard deviation of about 5.6e-17). So
  the general statements below never conclude a standard deviation of 0 from the values
  of a window. The only windows said to have one are concrete windows of zeros and of
  fives, whose sums and means are exact in floating point as well.
\<close>

record reading =
  datetime :: string
  Current :: real

text \<open>
  The module-level variables that \<open>stream_data\<close> declares \<^verbatim>\<open>global\<close>. The flags are the
  Python integers 0 and 1; the index and the counter start at 0 and are only ever
  incremented or set back to 0, so they are natural numbers.
\<close>

record state =
  data_stream :: "reading list"
  anomaly_flags :: "nat list"
  current_index :: nat
  total_processing_time :: real
  processed_points :: nat
  data :: "reading list"

definition init_state :: state where
  "init_state = \<lparr>data_stream = [], anomaly_flags = [], current_index = 0,
     total_processing_time = 0, processed_points = 0, data = []\<rparr>"

definition z_threshold :: real where
  "z_threshold = 23 / 10"

section \<open>The detector\<close>

text \<open>
  The Python slice \<^verbatim>\<open>xs[-n:]\<close> for a positive literal \<open>n\<close>: the whole list when it has at
  most \<open>n\<close> elements, its last \<open>n\<close> elements otherwise.
\<close>

definition slice_last :: "nat \<Rightarrow> 'a list \<Rightarrow> 'a list" where
  "slice_last n xs = (if length xs \<le> n then xs else drop (length xs - n) xs)"

text \<open>
  Modelled from the spec: \<^verbatim>\<open>pd.Series(current_values).std()\<close> is a library call whose code
  is not part of the repository. It is the sample standard deviation with the \<open>n - 1\<close>
  denominator. The engine only calls it on a list of exactly 50 values.
\<close>

definition series_std :: "real list \<Rightarrow> real" where
  "series_std xs =
     (let m = sum_list xs / real (length xs)
      in sqrt (sum_list (map (\<lambda>x. (x - m)\<^sup>2) xs) / real (length xs - 1)))"

definition calculate_z_score :: "real \<Rightarrow> real \<Rightarrow> real \<Rightarrow> real" where
  "calculate_z_score val mean std = (if std = 0 then 0 else (val - mean) / std)"

text \<open>
  Lines 93 to 95 of \<open>stream_data\<close>: the values of the last 50 entries of the stream, their
  mean and their standard deviation. The argument is \<open>data_stream\<close> as it is when these
  lines run. The two numbers are the exact ones; the code computes them in floating
  point, and the theorems about them below say over which values and by which formula
  they are computed, not what rounding makes of them.
\<close>

definition current_values :: "reading list \<Rightarrow> real list" where
  "current_values ds = map Current (slice_last 50 ds)"

definition window_stats :: "reading list \<Rightarrow> real \<times> real" where
  "window_stats ds =
     (let cv = current_values ds
      in (sum_list cv / real (length cv), series_std cv))"

text \<open>Lines 91 to 105: the flag appended for \<open>data_point\<close>, given the stream \<open>ds\<close> that line 88
  has already extended with \<open>data_point\<close>.\<close>

definition detect :: "reading list \<Rightarrow> reading \<Rightarrow> nat" where
  "detect ds data_point =
     (if length ds > 50 then
        (let (mean, std) = window_stats ds;
             z_score = calculate_z_score (Current data_point) mean std
         in if \<bar>z_score\<bar> > z_threshold then 1 else 0)
      else 0)"




section \<open>The stream engine\<close>

text \<open>
  One pass through the body of the inner loop, lines 82 to 113. The pacing delay has no
  effect on the state. The measured duration of the critical section, in milliseconds,
  is an input \<open>processing_time\<close> supplied by the environment. The engine only runs the
  body when \<open>current_index < len(data)\<close>, so the read of \<open>data\<close> is in range.
\<close>

definition tick :: "real \<Rightarrow> state \<Rightarrow> state" where
  "tick processing_time s =
     (let data_point = data s ! current_index s;
          ds = data_stream s @ [data_point]
      in s\<lparr>data_stream := ds,
            anomaly_flags := anomaly_flags s @ [detect ds data_point],
            total_processing_time := total_processing_time s + processing_time,
            processed_points := processed_points s + 1,
            current_index := current_index s + 1\<rparr>)"

text \<open>Lines 116 to 121: the reset made under the lock once the inner loop has ended.\<close>

definition reset :: "state \<Rightarrow> state" where
  "reset s = s\<lparr>current_index := 0, data_stream := [], anomaly_flags := [],
                total_processing_time := 0, processed_points := 0\<rparr>"

text \<open>
  \<open>load_dataset\<close> reads a file through pandas. What the file system and the parser
  deliver is an input of the model: the rows of the file, or one of the two exceptions.
  The function turns both exception branches into \<^verbatim>\<open>exit(1)\<close>, which raises
  \<open>SystemExit\<close> in the thread that runs the engine. A file without rows ends in the
  second branch as well: its \<open>datetime\<close> column has no datetime type, so the \<open>.dt\<close>
  accessor of line 37 raises. The function therefore never returns an empty list.
\<close>

datatype load_outcome = Records "reading list" | FileNotFoundError | OtherException

datatype halt = SystemExit nat

definition load_dataset :: "load_outcome \<Rightarrow> halt + reading list" where
  "load_dataset csv =
     (case csv of
        Records rs \<Rightarrow> (if rs = [] then Inl (SystemExit 1) else Inr rs)
      | FileNotFoundError \<Rightarrow> Inl (SystemExit 1)
      | OtherException \<Rightarrow> Inl (SystemExit 1))"

text \<open>
  The engine between two releases of the lock. Control rests either at the head of the
  outer loop (at the start and after a reset) or at the test of the inner loop (after a
  tick). After a tick \<open>data\<close> is not empty, and at the head of the outer loop a non-empty
  \<open>data\<close> leads straight to the test of the inner loop, so one function describes both:
  load if \<open>data\<close> is empty, then run the inner loop's body if the index is in range, and
  the reset otherwise.
\<close>

definition engine_step :: "load_outcome \<Rightarrow> real \<Rightarrow> state \<Rightarrow> halt + state" where
  "engine_step csv processing_time s =
     (case (if data s = [] then load_dataset csv else Inr (data s)) of
        Inl e \<Rightarrow> Inl e
      | Inr d \<Rightarrow>
          (let s' = s\<lparr>data := d\<rparr>
           in if current_index s' < length (data s')
              then Inr (tick processing_time s')
              else Inr (reset s')))"

text \<open>The engine run for as many critical sections as the list of measured durations has
  entries; it stops when \<open>load_dataset\<close> exits.\<close>

fun run :: "load_outcome \<Rightarrow> real list \<Rightarrow> state \<Rightarrow> halt + state" where
  "run csv [] s = Inr s"
| "run csv (t # ts) s =
     (case engine_step csv t s of Inl e \<Rightarrow> Inl e | Inr s' \<Rightarrow> run csv ts s')"

text \<open>The states of the shared variables that a request can see when it holds the lock: the
  initial one and the one left by each critical section of the engine.\<close>

inductive reachable :: "load_outcome \<Rightarrow> state \<Rightarrow> bool" for csv where
  start: "reachable csv init_state"
| step: "reachable csv s \<Longrightarrow> engine_step csv t s = Inr s' \<Longrightarrow> reachable csv s'"

section \<open>The query surface\<close>

record recent =
  data_points :: "reading list"
  recent_flags :: "nat list"

definition get_data :: "state \<Rightarrow> recent" where
  "get_data s = \<lparr>data_points = slice_last 100 (data_stream s),
                  recent_flags = slice_last 100 (anomaly_flags s)\<rparr>"

record metrics =
  total_points :: nat
  anomalies_detected :: nat
  average_processing_time :: real
  average_current_value :: real

definition get_metrics :: "state \<Rightarrow> metrics" where
  "get_metrics s =
     (let tp = length (data_stream s)
      in \<lparr>total_points = tp,
          anomalies_detected = sum_list (anomaly_flags s),
          average_processing_time =
            (if processed_points s > 0
             then total_processing_time s / real (processed_points s) else 0),
          average_current_value =
            (if tp > 0 then sum_list (map Current (data_stream s)) / real tp else 0)\<rparr>)"

section \<open>The process\<close>

text \<open>
  Lines 165 to 171 start \<open>stream_data\<close> on a thread of its own and then run the Flask
  application on the main thread. \<open>SystemExit\<close> unwinds the thread that raised it: raised
  on a thread other than the main one it ends that thread and nothing else, and the
  process lives on with its remaining threads. The engine's critical sections and the
  requests take the lock in some order; an event is the next critical section of the
  engine, with its measured duration, or a request to one of the two endpoints.
\<close>

datatype event = EngineSection real | GetData | GetMetrics

datatype response = DataResponse recent | MetricsResponse metrics

record process =
  shared :: state
  engine_exit :: "halt option"
  responses :: "response list"

definition init_process :: process where
  "init_process = \<lparr>shared = init_state, engine_exit = None, responses = []\<rparr>"

fun process_step :: "load_outcome \<Rightarrow> process \<Rightarrow> event \<Rightarrow> process" where
  "process_step csv p (EngineSection t) =
     (case engine_exit p of
        Some e \<Rightarrow> p
      | None \<Rightarrow>
          (case engine_step csv t (shared p) of
             Inl e \<Rightarrow> p\<lparr>engine_exit := Some e\<rparr>
           | Inr s' \<Rightarrow> p\<lparr>shared := s'\<rparr>))"
| "process_step csv p GetData =
     p\<lparr>responses := responses p @ [DataResponse (get_data (shared p))]\<rparr>"
| "process_step csv p GetMetrics =
     p\<lparr>responses := responses p @ [MetricsResponse (get_metrics (shared p))]\<rparr>"

definition process_run :: "load_outcome \<Rightarrow> event list \<Rightarrow> process" where
  "process_run csv evs = foldl (process_step csv) init_process evs"

section \<open>Concrete inputs\<close>

text \<open>A reading with a given value, and the state in which the engine has buffered the
  readings \<open>ds\<close> of the dataset \<open>d\<close> with the flags \<open>fs\<close>; they only shorten the concrete
  inputs of the examples below.\<close>

abbreviation rd :: "real \<Rightarrow> reading" where
  "rd v \<equiv> \<lparr>datetime = ''2020-03-09 10:14:33'', Current = v\<rparr>"

abbreviation buffered :: "reading list \<Rightarrow> nat list \<Rightarrow> reading list \<Rightarrow> state" where
  "buffered ds fs d \<equiv>
     \<lparr>data_stream = ds, anomaly_flags = fs, current_index = length ds,
      total_processing_time = 0, processed_points = length ds, data = d\<rparr>"

section \<open>Basic facts\<close>

lemma length_slice_last: "length (slice_last n xs) = min n (length xs)"
  by (simp add: slice_last_def)

lemma tick_data_stream:
  "data_stream (tick t s) = data_stream s @ [data s ! current_index s]"
  by (simp add: tick_def Let_def)

lemma tick_anomaly_flags:
  "anomaly_flags (tick t s) =
     anomaly_flags s @ [detect (data_stream s @ [data s ! current_index s]) (data s ! current_index s)]"
  by (simp add: tick_def Let_def)

subsection \<open>The standard deviation and the comparison with the threshold\<close>

lemma sum_sq_dev_nonneg: "0 \<le> sum_list (map (\<lambda>x. (x - m)\<^sup>2) xs) / real n"
  by (intro divide_nonneg_nonneg sum_list_nonneg) auto

lemma series_std_nonneg: "0 \<le> series_std xs"
  by (simp add: series_std_def Let_def sum_sq_dev_nonneg del: One_nat_def)

lemma series_std_pow2:
  "(series_std xs)\<^sup>2 =
     sum_list (map (\<lambda>x. (x - sum_list xs / real (length xs))\<^sup>2) xs) / real (length xs - 1)"
  by (simp add: series_std_def Let_def sum_sq_dev_nonneg del: One_nat_def)

text \<open>With a standard deviation that is not negative, the test \<open>abs(z_score) > t\<close> is a
  comparison of squares, which needs no square root.\<close>

lemma z_score_gt_iff_sq:
  fixes c m sd t :: real
  assumes "0 \<le> sd" "0 \<le> t"
  shows "(\<bar>calculate_z_score c m sd\<bar> > t) = (sd \<noteq> 0 \<and> (c - m)\<^sup>2 > t\<^sup>2 * sd\<^sup>2)"
proof (cases "sd = 0")
  case True
  with assms show ?thesis by (simp add: calculate_z_score_def)
next
  case False
  with assms have pos: "0 < sd" by simp
  have "(\<bar>(c - m) / sd\<bar> > t) = (t * sd < \<bar>c - m\<bar>)"
    using pos by (simp add: pos_less_divide_eq)
  also have "\<dots> = (\<bar>t * sd\<bar> < \<bar>c - m\<bar>)"
    using assms by simp
  also have "\<dots> = ((t * sd)\<^sup>2 < (c - m)\<^sup>2)"
    using abs_le_square_iff [of "c - m" "t * sd"] by (simp add: not_le [symmetric])
  finally show ?thesis
    using False by (simp add: calculate_z_score_def power_mult_distrib)
qed

subsection \<open>Invariants of the engine\<close>

lemma reachable_inv:
  "reachable csv s \<Longrightarrow>
     length (anomaly_flags s) = length (data_stream s) \<and>
     processed_points s = length (data_stream s) \<and>
     current_index s = length (data_stream s) \<and>
     set (anomaly_flags s) \<subseteq> {0, 1} \<and>
     current_index s \<le> length (data s)"
proof (induction rule: reachable.induct)
  case start
  then show ?case by (simp add: init_state_def)
next
  case (step s t s')
  then show ?case
    by (auto simp: engine_step_def tick_def reset_def Let_def detect_def Suc_le_eq
        split: sum.splits if_splits prod.splits)
qed

subsection \<open>Evaluating the detector\<close>

text \<open>Past the length test, the flag is decided by the mean and the sum of squared deviations
  of the last 50 values alone.\<close>

lemma detect_eval:
  assumes "length ds > 50"
  shows "detect ds dp =
    (if sum_list (map (\<lambda>x. (x - sum_list (current_values ds) / real (length (current_values ds)))\<^sup>2)
            (current_values ds)) / real (length (current_values ds) - 1) \<noteq> 0 \<and>
        (Current dp - sum_list (current_values ds) / real (length (current_values ds)))\<^sup>2 >
        z_threshold\<^sup>2 *
          (sum_list (map (\<lambda>x. (x - sum_list (current_values ds) / real (length (current_values ds)))\<^sup>2)
            (current_values ds)) / real (length (current_values ds) - 1))
     then 1 else 0)"
proof -
  have t: "0 \<le> z_threshold" by (simp add: z_threshold_def)
  have z: "series_std xs = 0 \<longleftrightarrow> (series_std xs)\<^sup>2 = 0" for xs by simp
  show ?thesis
    using assms
    unfolding detect_def window_stats_def Let_def prod.case
      z_score_gt_iff_sq [OF series_std_nonneg t] z series_std_pow2
    by simp
qed

lemma current_values_append:
  assumes "50 \<le> length ds"
  shows "current_values (ds @ [dp]) = map Current (slice_last 49 ds) @ [Current dp]"
  using assms by (simp add: current_values_def slice_last_def)

lemma length_current_values: "50 \<le> length ds \<Longrightarrow> length (current_values ds) = 50"
  by (simp add: current_values_def slice_last_def)

lemma series_std_square:
  "series_std xs * series_std xs =
     sum_list (map (\<lambda>x. (x - sum_list xs / real (length xs)) * (x - sum_list xs / real (length xs))) xs)
       / real (length xs - 1)"
  using series_std_pow2 [of xs] by (simp only: power2_eq_square)

text \<open>A list of equal values has standard deviation 0.\<close>

lemma series_std_flat:
  assumes "\<forall>x\<in>set xs. x = v"
  shows "series_std xs = 0"
proof -
  have xs: "xs = replicate (length xs) v"
    using assms by (simp add: replicate_length_same)
  have "sum_list xs = real (length xs) * v"
    by (subst xs) (simp add: sum_list_replicate)
  then have m: "xs \<noteq> [] \<Longrightarrow> sum_list xs / real (length xs) = v"
    by simp
  have "sum_list (map (\<lambda>x. (x - sum_list xs / real (length xs))\<^sup>2) xs) = 0"
  proof (cases "xs = []")
    case True
    then show ?thesis by simp
  next
    case False
    have "map (\<lambda>x. (x - v)\<^sup>2) xs = replicate (length xs) 0"
      by (subst xs) simp
    then show ?thesis using m [OF False] by (simp add: sum_list_replicate)
  qed
  then show ?thesis by (simp add: series_std_def Let_def)
qed

subsection \<open>Runs of the engine\<close>

lemma reachable_run_from:
  "reachable csv s0 \<Longrightarrow> run csv ts s0 = Inr s \<Longrightarrow> reachable csv s"
proof (induction ts arbitrary: s0)
  case Nil
  then show ?case by simp
next
  case (Cons t ts)
  then show ?case
    by (auto split: sum.splits intro: reachable.step)
qed

lemma reachable_run: "run csv ts init_state = Inr s \<Longrightarrow> reachable csv s"
  using reachable_run_from [OF reachable.start] .

lemma run_append:
  "run csv (ts @ us) s = (case run csv ts s of Inl e \<Rightarrow> Inl e | Inr s' \<Rightarrow> run csv us s')"
  by (induction ts arbitrary: s) (auto split: sum.splits)

text \<open>A list of flags that are 0 or 1 sums to the number of its ones.\<close>

lemma sum_list_flags:
  "set fs \<subseteq> {0, 1 :: nat} \<Longrightarrow> sum_list fs = length (filter (\<lambda>f. f = 1) fs)"
  by (induction fs) auto

text \<open>A load that fails, or a file without rows, ends the engine in its first pass.\<close>

lemma engine_step_load_failure:
  assumes "csv = FileNotFoundError \<or> csv = OtherException \<or> csv = Records []"
  shows "engine_step csv t init_state = Inl (SystemExit 1)"
  using assms by (auto simp: engine_step_def load_dataset_def init_state_def)



text \<open>While the stream stays within 50 entries, a run of ticks appends the next readings of the
  dataset and as many flags 0.\<close>

lemma run_cold:
  assumes "data s \<noteq> []"
    and "current_index s + length ts \<le> length (data s)"
    and "length (data_stream s) + length ts \<le> 50"
  shows "run csv ts s =
     Inr (s\<lparr>data_stream := data_stream s @ take (length ts) (drop (current_index s) (data s)),
            anomaly_flags := anomaly_flags s @ replicate (length ts) 0,
            total_processing_time := total_processing_time s + sum_list ts,
            processed_points := processed_points s + length ts,
            current_index := current_index s + length ts\<rparr>)"
  using assms
proof (induction ts arbitrary: s)
  case Nil
  then show ?case by simp
next
  case (Cons t ts)
  have lt: "current_index s < length (data s)"
    using Cons.prems(2) by simp
  have st: "engine_step csv t s = Inr (tick t s)"
    using Cons.prems(1) lt by (simp add: engine_step_def Let_def)
  have fl: "detect (data_stream s @ [data s ! current_index s]) (data s ! current_index s) = 0"
    using Cons.prems(3) by (simp add: detect_def)
  have tk: "tick t s = s\<lparr>data_stream := data_stream s @ [data s ! current_index s],
            anomaly_flags := anomaly_flags s @ [0],
            total_processing_time := total_processing_time s + t,
            processed_points := processed_points s + 1,
            current_index := current_index s + 1\<rparr>"
    using fl by (simp add: tick_def Let_def)
  have ih: "run csv ts (tick t s) = Inr ((tick t s)
           \<lparr>data_stream := data_stream (tick t s) @
               take (length ts) (drop (current_index (tick t s)) (data (tick t s))),
            anomaly_flags := anomaly_flags (tick t s) @ replicate (length ts) 0,
            total_processing_time := total_processing_time (tick t s) + sum_list ts,
            processed_points := processed_points (tick t s) + length ts,
            current_index := current_index (tick t s) + length ts\<rparr>)"
    using Cons.prems by (intro Cons.IH) (simp_all add: tk)
  have tl: "data s ! current_index s # take (length ts) (drop (Suc (current_index s)) (data s))
      = take (Suc (length ts)) (drop (current_index s) (data s))"
    using lt by (simp add: Cons_nth_drop_Suc [symmetric])
  show ?case
    by (simp add: st ih) (simp add: tk tl replicate_append_same add.assoc)
qed

text \<open>The dataset of 50 readings of value 1 followed by one of value 50, every critical section
  taking \<open>t\<close> milliseconds: the state after 50 ticks and after 51.\<close>

lemma replicate_fifty: "replicate 50 x = x # replicate 49 x"
  using replicate_Suc [of 49 x] by simp

lemma run_fifty:
  "run (Records (replicate 50 (rd 1) @ [rd 50])) (t # replicate 49 t) init_state =
     Inr \<lparr>data_stream = replicate 50 (rd 1), anomaly_flags = replicate 50 0,
          current_index = 50, total_processing_time = 50 * t, processed_points = 50,
          data = replicate 50 (rd 1) @ [rd 50]\<rparr>"
proof -
  let ?csv = "Records (replicate 50 (rd 1) @ [rd 50])"
  let ?s1 = "\<lparr>data_stream = [rd 1], anomaly_flags = [0],
          current_index = 1, total_processing_time = t, processed_points = 1,
          data = replicate 50 (rd 1) @ [rd 50]\<rparr>"
  have s1: "engine_step ?csv t init_state = Inr ?s1"
    by (simp add: engine_step_def load_dataset_def init_state_def tick_def Let_def detect_def
        nth_append)
  have "run ?csv (t # replicate 49 t) init_state = run ?csv (replicate 49 t) ?s1"
    by (simp only: run.simps s1 sum.case)
  also have "\<dots> = Inr \<lparr>data_stream = replicate 50 (rd 1), anomaly_flags = replicate 50 0,
          current_index = 50, total_processing_time = 50 * t, processed_points = 50,
          data = replicate 50 (rd 1) @ [rd 50]\<rparr>"
    by (subst run_cold) (simp_all add: sum_list_replicate replicate_fifty)
  finally show ?thesis .
qed

lemma run_fifty_one:
  "run (Records (replicate 50 (rd 1) @ [rd 50])) ((t # replicate 49 t) @ [t]) init_state =
     Inr \<lparr>data_stream = replicate 50 (rd 1) @ [rd 50], anomaly_flags = replicate 50 0 @ [1],
          current_index = 51, total_processing_time = 51 * t, processed_points = 51,
          data = replicate 50 (rd 1) @ [rd 50]\<rparr>"
proof -
  let ?csv = "Records (replicate 50 (rd 1) @ [rd 50])"
  have "run ?csv ((t # replicate 49 t) @ [t]) init_state =
      run ?csv [t] \<lparr>data_stream = replicate 50 (rd 1), anomaly_flags = replicate 50 0,
          current_index = 50, total_processing_time = 50 * t, processed_points = 50,
          data = replicate 50 (rd 1) @ [rd 50]\<rparr>"
    by (simp only: run_append run_fifty sum.case)
  also have "\<dots> = Inr \<lparr>data_stream = replicate 50 (rd 1) @ [rd 50],
          anomaly_flags = replicate 50 0 @ [1],
          current_index = 51, total_processing_time = 51 * t, processed_points = 51,
          data = replicate 50 (rd 1) @ [rd 50]\<rparr>"
    by (simp add: engine_step_def tick_def Let_def nth_append detect_eval current_values_def
        slice_last_def z_threshold_def power2_eq_square sum_list_replicate)
  finally show ?thesis .
qed

section \<open>Cold start\<close>

text \<open>
  C1, as amended. The length test of line 91 reads \<open>data_stream\<close> after line 88 has appended
  the reading being classified. So the flag is 0, whatever the reading's value, on every
  tick after which the stream has at most 50 entries, the new reading included: that is,
  when fewer than 50 readings precede it.
\<close>

theorem C1_cold_start:
  "length (data_stream (tick t s)) \<le> 50 \<Longrightarrow> anomaly_flags (tick t s) = anomaly_flags s @ [0]"
  by (simp add: tick_def Let_def detect_def)

text \<open>The second reading of a dataset is classified during cold start.\<close>

theorem C1_cold_start_witness:
  "length (data_stream (tick 3 (buffered [rd 1] [0] [rd 1, rd 50]))) \<le> 50 \<and>
   anomaly_flags (tick 3 (buffered [rd 1] [0] [rd 1, rd 50])) = [0, 0]"
  using C1_cold_start [of 3 "buffered [rd 1] [0] [rd 1, rd 50]"]
  by (simp add: tick_data_stream)

text \<open>
  C1 as stated fails when exactly 50 readings precede the candidate: with 50 readings of
  value 1 in the stream, a state the engine reaches after 50 ticks, the reading of value
  50 makes the stream 51 long, the detector runs on 49 ones and the 50, and the reading
  is flagged.
\<close>

theorem C1_counterexample:
  "reachable (Records (replicate 50 (rd 1) @ [rd 50]))
     (buffered (replicate 50 (rd 1)) (replicate 50 0) (replicate 50 (rd 1) @ [rd 50])) \<and>
   length (data_stream (buffered (replicate 50 (rd 1)) (replicate 50 0) (replicate 50 (rd 1) @ [rd 50]))) \<le> 50 \<and>
   anomaly_flags (tick 0 (buffered (replicate 50 (rd 1)) (replicate 50 0) (replicate 50 (rd 1) @ [rd 50])))
     = replicate 50 0 @ [1]"
proof -
  have "run (Records (replicate 50 (rd 1) @ [rd 50])) (0 # replicate 49 0) init_state =
      Inr (buffered (replicate 50 (rd 1)) (replicate 50 0) (replicate 50 (rd 1) @ [rd 50]))"
    by (subst run_fifty) simp
  then have "reachable (Records (replicate 50 (rd 1) @ [rd 50]))
     (buffered (replicate 50 (rd 1)) (replicate 50 0) (replicate 50 (rd 1) @ [rd 50]))"
    by (rule reachable_run)
  then show ?thesis
    by (simp add: tick_anomaly_flags nth_append detect_eval current_values_def slice_last_def
        z_threshold_def power2_eq_square sum_list_replicate)
qed

section \<open>The window of the statistics\<close>

text \<open>
  C2, as amended. On every tick that computes statistics (at least 50 readings are in the
  stream before it), the mean and the standard deviation are taken over the last 50
  entries of the stream after the new reading has been appended: the last 49 earlier
  values followed by the value being classified. The flag appended is the threshold test
  of the z-score against these statistics.
\<close>

theorem C2_window_includes_candidate:
  assumes "50 \<le> length (data_stream s)"
  shows "current_values (data_stream (tick t s)) =
           map Current (slice_last 49 (data_stream s)) @ [Current (data s ! current_index s)] \<and>
         anomaly_flags (tick t s) = anomaly_flags s @
           [if \<bar>calculate_z_score (Current (data s ! current_index s))
                  (fst (window_stats (data_stream (tick t s))))
                  (snd (window_stats (data_stream (tick t s))))\<bar> > z_threshold
            then 1 else 0]"
  using assms
  by (simp add: tick_data_stream tick_anomaly_flags current_values_append detect_def
      case_prod_unfold Let_def)

text \<open>After 50 readings of value 2, the reading of value 4 is judged against 49 twos and
  itself.\<close>

theorem C2_window_includes_candidate_witness:
  "50 \<le> length (data_stream (buffered (replicate 50 (rd 2)) (replicate 50 0) (replicate 50 (rd 2) @ [rd 4]))) \<and>
   current_values (data_stream (tick 1 (buffered (replicate 50 (rd 2)) (replicate 50 0) (replicate 50 (rd 2) @ [rd 4]))))
     = replicate 49 2 @ [4]"
  using C2_window_includes_candidate
    [of "buffered (replicate 50 (rd 2)) (replicate 50 0) (replicate 50 (rd 2) @ [rd 4])" 1]
  by (simp add: slice_last_def nth_append)

text \<open>
  C2 as stated fails: after 51 readings of value 0, the reading of value 50 is classified
  with mean 1 and variance 50, the statistics of 49 zeros and the 50, and is flagged. The
  window as it stood before the reading was appended has mean 0 and standard deviation 0,
  with which \<open>calculate_z_score\<close> returns 0 and nothing is flagged.
\<close>

theorem C2_counterexample:
  "fst (window_stats (data_stream (tick 0
      (buffered (replicate 51 (rd 0)) (replicate 51 0) (replicate 51 (rd 0) @ [rd 50]))))) = 1 \<and>
   (snd (window_stats (data_stream (tick 0
      (buffered (replicate 51 (rd 0)) (replicate 51 0) (replicate 51 (rd 0) @ [rd 50]))))))\<^sup>2 = 50 \<and>
   window_stats (data_stream
      (buffered (replicate 51 (rd 0)) (replicate 51 0) (replicate 51 (rd 0) @ [rd 50]))) = (0, 0) \<and>
   anomaly_flags (tick 0
      (buffered (replicate 51 (rd 0)) (replicate 51 0) (replicate 51 (rd 0) @ [rd 50])))
     = replicate 51 0 @ [1]"
  by (simp add: tick_data_stream tick_anomaly_flags nth_append detect_eval window_stats_def
      series_std_square series_std_flat current_values_def slice_last_def Let_def
      z_threshold_def power2_eq_square sum_list_replicate)

section \<open>A standard deviation of 0\<close>




section \<open>The threshold test\<close>

text \<open>
  C4, as amended. Past cold start and with a standard deviation other than 0, the reading
  is flagged exactly when the absolute value of (value - mean) / std is strictly greater
  than the threshold, where mean is the arithmetic mean and std the sample standard
  deviation, with denominator 49, of the last 50 values of the stream after the reading
  being classified has been appended to it.
\<close>

theorem C4_threshold_test:
  assumes "length (data_stream (tick t s)) > 50"
    and "series_std (current_values (data_stream (tick t s))) \<noteq> 0"
  shows "length (current_values (data_stream (tick t s))) = 50 \<and>
         anomaly_flags (tick t s) = anomaly_flags s @
           [if \<bar>(Current (data s ! current_index s)
                   - sum_list (current_values (data_stream (tick t s))) / 50)
                 / sqrt (sum_list (map (\<lambda>x. (x - sum_list (current_values (data_stream (tick t s))) / 50)\<^sup>2)
                            (current_values (data_stream (tick t s)))) / 49)\<bar>
               > z_threshold
            then 1 else 0]"
proof -
  have len: "length (current_values (data_stream (tick t s))) = 50"
    using assms(1) by (simp add: length_current_values)
  have sd: "series_std (current_values (data_stream (tick t s))) =
      sqrt (sum_list (map (\<lambda>x. (x - sum_list (current_values (data_stream (tick t s))) / 50)\<^sup>2)
                            (current_values (data_stream (tick t s)))) / 49)"
    by (simp add: series_std_def Let_def len)
  have "anomaly_flags (tick t s) = anomaly_flags s @
      [detect (data_stream (tick t s)) (data s ! current_index s)]"
    by (simp add: tick_anomaly_flags tick_data_stream)
  then show ?thesis
    using assms len sd
    by (simp add: detect_def window_stats_def Let_def calculate_z_score_def)
qed


text \<open>Fifty readings of value 2 followed by one of value 3: the standard deviation of 49
  twos and the 3 is not 0.\<close>

theorem C4_threshold_test_witness:
  "length (data_stream (tick 0 (buffered (replicate 50 (rd 2)) (replicate 50 0) (replicate 50 (rd 2) @ [rd 3])))) > 50 \<and>
   series_std (current_values (data_stream
     (tick 0 (buffered (replicate 50 (rd 2)) (replicate 50 0) (replicate 50 (rd 2) @ [rd 3]))))) \<noteq> 0 \<and>
   length (current_values (data_stream
     (tick 0 (buffered (replicate 50 (rd 2)) (replicate 50 0) (replicate 50 (rd 2) @ [rd 3]))))) = 50"
proof -
  have h1: "length (data_stream (tick 0 (buffered (replicate 50 (rd 2)) (replicate 50 0) (replicate 50 (rd 2) @ [rd 3])))) > 50"
    by (simp add: tick_data_stream)
  have "series_std (current_values (data_stream
       (tick 0 (buffered (replicate 50 (rd 2)) (replicate 50 0) (replicate 50 (rd 2) @ [rd 3])))))
     * series_std (current_values (data_stream
       (tick 0 (buffered (replicate 50 (rd 2)) (replicate 50 0) (replicate 50 (rd 2) @ [rd 3])))))
     = 1 / 50"
    by (simp add: tick_data_stream nth_append current_values_def slice_last_def
        series_std_square sum_list_replicate)
  then have h2: "series_std (current_values (data_stream
     (tick 0 (buffered (replicate 50 (rd 2)) (replicate 50 0) (replicate 50 (rd 2) @ [rd 3]))))) \<noteq> 0"
    by auto
  show ?thesis
    using C4_threshold_test [OF h1 h2] h1 h2 by blast
qed

text \<open>
  C4 as stated fails when the statistics are those of the window before the reading: after
  26 readings of value 1 and 25 of value -1, the last 50 earlier values have mean 0 and
  variance 50/49, so the reading of value 2.4 has a z-score of about 2.38 against them,
  above the threshold of 2.3. The code judges it against the last 49 earlier values and
  itself, gets about 2.24, and does not flag it.
\<close>

theorem C4_counterexample:
  "length (data_stream (buffered (replicate 26 (rd 1) @ replicate 25 (rd (- 1))) (replicate 51 0)
      (replicate 26 (rd 1) @ replicate 25 (rd (- 1)) @ [rd (12 / 5)]))) > 50 \<and>
   snd (window_stats (data_stream (buffered (replicate 26 (rd 1) @ replicate 25 (rd (- 1))) (replicate 51 0)
      (replicate 26 (rd 1) @ replicate 25 (rd (- 1)) @ [rd (12 / 5)])))) \<noteq> 0 \<and>
   \<bar>(12 / 5 -
      fst (window_stats (data_stream (buffered (replicate 26 (rd 1) @ replicate 25 (rd (- 1))) (replicate 51 0)
        (replicate 26 (rd 1) @ replicate 25 (rd (- 1)) @ [rd (12 / 5)])))))
      / snd (window_stats (data_stream (buffered (replicate 26 (rd 1) @ replicate 25 (rd (- 1))) (replicate 51 0)
        (replicate 26 (rd 1) @ replicate 25 (rd (- 1)) @ [rd (12 / 5)]))))\<bar> > z_threshold \<and>
   anomaly_flags (tick 0 (buffered (replicate 26 (rd 1) @ replicate 25 (rd (- 1))) (replicate 51 0)
      (replicate 26 (rd 1) @ replicate 25 (rd (- 1)) @ [rd (12 / 5)])))
     = replicate 51 0 @ [0]"
proof -
  have t: "0 \<le> z_threshold" by (simp add: z_threshold_def)
  have sq: "series_std (replicate 25 1 @ replicate 25 (- 1)) * series_std (replicate 25 1 @ replicate 25 (- 1)) = 50 / 49"
    by (simp add: series_std_square sum_list_replicate)
  then have nz: "series_std (replicate 25 1 @ replicate 25 (- 1)) \<noteq> 0"
    by auto
  have ws: "window_stats (replicate 26 (rd 1) @ replicate 25 (rd (- 1)))
      = (0, series_std (replicate 25 1 @ replicate 25 (- 1)))"
    by (simp add: window_stats_def current_values_def slice_last_def Let_def sum_list_replicate)
  have z: "\<bar>calculate_z_score (12 / 5) 0 (series_std (replicate 25 1 @ replicate 25 (- 1)))\<bar> > z_threshold"
    unfolding z_score_gt_iff_sq [OF series_std_nonneg t]
    using nz sq by (simp add: power2_eq_square z_threshold_def)
  have fl: "anomaly_flags (tick 0 (buffered (replicate 26 (rd 1) @ replicate 25 (rd (- 1))) (replicate 51 0)
      (replicate 26 (rd 1) @ replicate 25 (rd (- 1)) @ [rd (12 / 5)])))
     = replicate 51 0 @ [0]"
    by (simp add: tick_anomaly_flags nth_append detect_eval current_values_def slice_last_def
      z_threshold_def power2_eq_square sum_list_replicate)
  show ?thesis
    using nz z fl by (simp add: ws calculate_z_score_def)
qed

section \<open>Flags and stream have the same length\<close>

text \<open>
  C5. In every state that a request can see while it holds the lock, that is the initial
  state and the state left by each critical section of the engine, \<open>anomaly_flags\<close> and
  \<open>data_stream\<close> have the same length.
\<close>

theorem C5_lengths_agree:
  "reachable csv s \<Longrightarrow> length (anomaly_flags s) = length (data_stream s)"
  by (simp add: reachable_inv)

text \<open>The state after the first tick over a dataset of two readings.\<close>

theorem C5_lengths_agree_witness:
  "reachable (Records [rd 1, rd 2])
     \<lparr>data_stream = [rd 1], anomaly_flags = [0], current_index = 1,
      total_processing_time = 3, processed_points = 1, data = [rd 1, rd 2]\<rparr> \<and>
   length (anomaly_flags
     \<lparr>data_stream = [rd 1], anomaly_flags = [0], current_index = 1,
      total_processing_time = 3, processed_points = 1, data = [rd 1, rd 2]\<rparr>) =
   length (data_stream
     \<lparr>data_stream = [rd 1], anomaly_flags = [0], current_index = 1,
      total_processing_time = 3, processed_points = 1, data = [rd 1, rd 2]\<rparr>)"
proof -
  have "run (Records [rd 1, rd 2]) [3] init_state =
      Inr \<lparr>data_stream = [rd 1], anomaly_flags = [0], current_index = 1,
      total_processing_time = 3, processed_points = 1, data = [rd 1, rd 2]\<rparr>"
    by (simp add: engine_step_def load_dataset_def init_state_def tick_def detect_def Let_def)
  then have r: "reachable (Records [rd 1, rd 2])
     \<lparr>data_stream = [rd 1], anomaly_flags = [0], current_index = 1,
      total_processing_time = 3, processed_points = 1, data = [rd 1, rd 2]\<rparr>"
    by (rule reachable_run)
  show ?thesis
    using C5_lengths_agree [OF r] r by blast
qed

section \<open>The reset at the end of a cycle\<close>

text \<open>
  C6. In the state left by the last reading of a loaded dataset the index equals the
  length of the dataset. The next critical section of the engine is then the reset: it
  sets the index to 0, empties \<open>data_stream\<close> and \<open>anomaly_flags\<close>, and zeroes the total
  processing time and the count of processed points, all under one hold of the lock.
  So the state that follows the one left by the last reading shows, to both snapshot
  operations, an empty stream and no points.
\<close>

theorem C6_cycle_reset:
  assumes "data s \<noteq> []" and "current_index s = length (data s)"
  shows "engine_step csv t s = Inr (reset s) \<and>
         current_index (reset s) = 0 \<and> data_stream (reset s) = [] \<and>
         anomaly_flags (reset s) = [] \<and>
         total_processing_time (reset s) = 0 \<and> processed_points (reset s) = 0 \<and>
         data_points (get_data (reset s)) = [] \<and> recent_flags (get_data (reset s)) = [] \<and>
         total_points (get_metrics (reset s)) = 0"
  using assms
  by (simp add: engine_step_def reset_def get_data_def get_metrics_def slice_last_def Let_def)

text \<open>A dataset of two readings, both processed.\<close>

theorem C6_cycle_reset_witness:
  "data (buffered [rd 1, rd 2] [0, 0] [rd 1, rd 2]) \<noteq> [] \<and>
   current_index (buffered [rd 1, rd 2] [0, 0] [rd 1, rd 2])
     = length (data (buffered [rd 1, rd 2] [0, 0] [rd 1, rd 2])) \<and>
   engine_step (Records [rd 1, rd 2]) 5 (buffered [rd 1, rd 2] [0, 0] [rd 1, rd 2])
     = Inr (buffered [] [] [rd 1, rd 2])"
  using C6_cycle_reset [of "buffered [rd 1, rd 2] [0, 0] [rd 1, rd 2]" "Records [rd 1, rd 2]" 5]
  by (simp add: reset_def)

section \<open>The recent-data snapshot\<close>

text \<open>
  C7. In every state a request can see, \<open>get_data\<close> returns the last
  \<open>min(100, len(data_stream))\<close> entries of \<open>data_stream\<close> and the flags from the same
  offset of \<open>anomaly_flags\<close>, as many as the entries; never more than 100 entries and
  never more than the stream has.
\<close>

theorem C7_get_data:
  assumes "reachable csv s"
  shows "data_points (get_data s) =
           drop (length (data_stream s) - min 100 (length (data_stream s))) (data_stream s) \<and>
         recent_flags (get_data s) =
           drop (length (data_stream s) - min 100 (length (data_stream s))) (anomaly_flags s) \<and>
         length (data_points (get_data s)) = min 100 (length (data_stream s)) \<and>
         length (recent_flags (get_data s)) = length (data_points (get_data s)) \<and>
         length (data_points (get_data s)) \<le> 100 \<and>
         length (data_points (get_data s)) \<le> length (data_stream s)"
proof -
  have len: "length (anomaly_flags s) = length (data_stream s)"
    using assms by (simp add: reachable_inv)
  show ?thesis
    by (simp add: get_data_def slice_last_def len min_def)
qed

text \<open>The state after both readings of a dataset of two.\<close>

theorem C7_get_data_witness:
  "reachable (Records [rd 1, rd 2])
     \<lparr>data_stream = [rd 1, rd 2], anomaly_flags = [0, 0], current_index = 2,
      total_processing_time = 2, processed_points = 2, data = [rd 1, rd 2]\<rparr> \<and>
   data_points (get_data
     \<lparr>data_stream = [rd 1, rd 2], anomaly_flags = [0, 0], current_index = 2,
      total_processing_time = 2, processed_points = 2, data = [rd 1, rd 2]\<rparr>) = [rd 1, rd 2] \<and>
   recent_flags (get_data
     \<lparr>data_stream = [rd 1, rd 2], anomaly_flags = [0, 0], current_index = 2,
      total_processing_time = 2, processed_points = 2, data = [rd 1, rd 2]\<rparr>) = [0, 0]"
proof -
  have "run (Records [rd 1, rd 2]) [1, 1] init_state =
      Inr \<lparr>data_stream = [rd 1, rd 2], anomaly_flags = [0, 0], current_index = 2,
      total_processing_time = 2, processed_points = 2, data = [rd 1, rd 2]\<rparr>"
    by (simp add: engine_step_def load_dataset_def init_state_def tick_def detect_def Let_def)
  then have r: "reachable (Records [rd 1, rd 2])
     \<lparr>data_stream = [rd 1, rd 2], anomaly_flags = [0, 0], current_index = 2,
      total_processing_time = 2, processed_points = 2, data = [rd 1, rd 2]\<rparr>"
    by (rule reachable_run)
  show ?thesis
    using C7_get_data [OF r] r by simp
qed

section \<open>The metrics snapshot\<close>

text \<open>
  C8. In every state a request can see, \<open>get_metrics\<close> returns the length of
  \<open>data_stream\<close> as the total, the number of flags equal to 1 as the anomalies detected,
  the total processing time divided by the count of processed points (0 when the count
  is 0) as the average processing time, and the arithmetic mean of all values in
  \<open>data_stream\<close> (0 when it is empty) as the average value.
\<close>

theorem C8_get_metrics:
  assumes "reachable csv s"
  shows "total_points (get_metrics s) = length (data_stream s) \<and>
         anomalies_detected (get_metrics s) = length (filter (\<lambda>f. f = 1) (anomaly_flags s)) \<and>
         average_processing_time (get_metrics s) =
           (if processed_points s = 0 then 0
            else total_processing_time s / real (processed_points s)) \<and>
         average_current_value (get_metrics s) =
           (if data_stream s = [] then 0
            else sum_list (map Current (data_stream s)) / real (length (data_stream s)))"
proof -
  have "set (anomaly_flags s) \<subseteq> {0, 1}"
    using reachable_inv [OF assms] by blast
  then have "sum_list (anomaly_flags s) = length (filter (\<lambda>f. f = 1) (anomaly_flags s))"
    by (rule sum_list_flags)
  then show ?thesis
    by (simp add: get_metrics_def Let_def)
qed


text \<open>After the 51 readings of the dataset of 50 ones and one 50, each taking 2 ms: 51 points,
  one anomaly, 2 ms on average, and a mean value of 100/51.\<close>

theorem C8_get_metrics_witness:
  "reachable (Records (replicate 50 (rd 1) @ [rd 50]))
     \<lparr>data_stream = replicate 50 (rd 1) @ [rd 50], anomaly_flags = replicate 50 0 @ [1],
      current_index = 51, total_processing_time = 51 * 2, processed_points = 51,
      data = replicate 50 (rd 1) @ [rd 50]\<rparr> \<and>
   get_metrics
     \<lparr>data_stream = replicate 50 (rd 1) @ [rd 50], anomaly_flags = replicate 50 0 @ [1],
      current_index = 51, total_processing_time = 51 * 2, processed_points = 51,
      data = replicate 50 (rd 1) @ [rd 50]\<rparr>
   = \<lparr>total_points = 51, anomalies_detected = 1, average_processing_time = 2,
      average_current_value = 100 / 51\<rparr>"
proof -
  have r: "reachable (Records (replicate 50 (rd 1) @ [rd 50]))
     \<lparr>data_stream = replicate 50 (rd 1) @ [rd 50], anomaly_flags = replicate 50 0 @ [1],
      current_index = 51, total_processing_time = 51 * 2, processed_points = 51,
      data = replicate 50 (rd 1) @ [rd 50]\<rparr>"
    using run_fifty_one [of 2] by (rule reachable_run)
  have "anomalies_detected (get_metrics
     \<lparr>data_stream = replicate 50 (rd 1) @ [rd 50], anomaly_flags = replicate 50 0 @ [1],
      current_index = 51, total_processing_time = 51 * 2, processed_points = 51,
      data = replicate 50 (rd 1) @ [rd 50]\<rparr>) = 1"
    using C8_get_metrics [OF r] by simp
  then show ?thesis
    using r by (simp add: get_metrics_def Let_def sum_list_replicate)
qed

section \<open>Load failure\<close>

text \<open>
  C9. The claim asks for a fatal stop without service when the dataset is missing, cannot
  be parsed or has no rows. The engine does stop: \<open>load_dataset\<close> calls \<open>exit(1)\<close> in its
  first pass, before the replay loop is entered and before any reading is processed.
  But the call is made on the engine's thread, so it ends that thread only. The
  application on the main thread keeps answering: with a missing file, a request to
  each endpoint made after the engine has stopped is answered from the initial state,
  with no data points and all metrics 0.
\<close>

theorem C9_load_failure_keeps_serving:
  "run FileNotFoundError (t # ts) init_state = Inl (SystemExit 1) \<and>
   run OtherException (t # ts) init_state = Inl (SystemExit 1) \<and>
   run (Records []) (t # ts) init_state = Inl (SystemExit 1) \<and>
   process_run FileNotFoundError [EngineSection t, GetData, GetMetrics] =
     \<lparr>shared = init_state, engine_exit = Some (SystemExit 1),
      responses =
        [DataResponse \<lparr>data_points = [], recent_flags = []\<rparr>,
         MetricsResponse \<lparr>total_points = 0, anomalies_detected = 0,
           average_processing_time = 0, average_current_value = 0\<rparr>]\<rparr>"
proof -
  have e: "engine_step FileNotFoundError t init_state = Inl (SystemExit 1)"
    by (simp add: engine_step_load_failure)
  have "process_run FileNotFoundError [EngineSection t, GetData, GetMetrics] =
     \<lparr>shared = init_state, engine_exit = Some (SystemExit 1),
      responses =
        [DataResponse \<lparr>data_points = [], recent_flags = []\<rparr>,
         MetricsResponse \<lparr>total_points = 0, anomalies_detected = 0,
           average_processing_time = 0, average_current_value = 0\<rparr>]\<rparr>"
    by (simp add: process_run_def init_process_def e)
      (simp add: init_state_def get_data_def get_metrics_def slice_last_def)
  then show ?thesis
    by (simp add: engine_step_load_failure)
qed

section \<open>Processed count, stream length and index\<close>

text \<open>
  C10. In every state that a request can see while it holds the lock, the count of
  processed points, the length of \<open>data_stream\<close> and the index are equal.
\<close>

theorem C10_counts_agree:
  "reachable csv s \<Longrightarrow>
     processed_points s = length (data_stream s) \<and> length (data_stream s) = current_index s"
  by (simp add: reachable_inv)

text \<open>The state after two ticks over a dataset of three readings.\<close>

theorem C10_counts_agree_witness:
  "reachable (Records [rd 1, rd 2, rd 3])
     \<lparr>data_stream = [rd 1, rd 2], anomaly_flags = [0, 0], current_index = 2,
      total_processing_time = 7, processed_points = 2, data = [rd 1, rd 2, rd 3]\<rparr> \<and>
   processed_points
     \<lparr>data_stream = [rd 1, rd 2], anomaly_flags = [0, 0], current_index = 2,
      total_processing_time = 7, processed_points = 2, data = [rd 1, rd 2, rd 3]\<rparr> = 2 \<and>
   current_index
     \<lparr>data_stream = [rd 1, rd 2], anomaly_flags = [0, 0], current_index = 2,
      total_processing_time = 7, processed_points = 2, data = [rd 1, rd 2, rd 3]\<rparr> = 2"
proof -
  have "run (Records [rd 1, rd 2, rd 3]) [3, 4] init_state =
      Inr \<lparr>data_stream = [rd 1, rd 2], anomaly_flags = [0, 0], current_index = 2,
      total_processing_time = 7, processed_points = 2, data = [rd 1, rd 2, rd 3]\<rparr>"
    by (simp add: engine_step_def load_dataset_def init_state_def tick_def detect_def Let_def)
  then have r: "reachable (Records [rd 1, rd 2, rd 3])
     \<lparr>data_stream = [rd 1, rd 2], anomaly_flags = [0, 0], current_index = 2,
      total_processing_time = 7, processed_points = 2, data = [rd 1, rd 2, rd 3]\<rparr>"
    by (rule reachable_run)
  show ?thesis
    using C10_counts_agree [OF r] r by simp
qed

end
